theory Spec2Isabelle
  imports Complex_Main "HOL-Library.Log_Nat"
begin

section \<open>LegitCHAIN blockchain network adapters\<close>

text \<open>
  A shallow embedding of \<^verbatim>\<open>src/blockchain-adapters.ts\<close>: the three chain adapters
  (\<^verbatim>\<open>CustomPoAAdapter\<close>, \<^verbatim>\<open>PolygonAdapter\<close>, \<^verbatim>\<open>EthereumAdapter\<close>) and the
  \<^verbatim>\<open>ChainAdapterFactory\<close>.

  The adapters are glue around three collaborators whose code is not part of the file:
  the PoA client (\<^verbatim>\<open>./poa-client\<close>), the Polygon SDK (\<^verbatim>\<open>@polygon/sdk\<close>) and the ethers
  library with its JSON-RPC provider. Each collaborator is a parameter of the model: a
  record holding one function per method the adapters call, over an abstract state of the
  collaborator. Every theorem below is stated for an arbitrary collaborator.
  The \<^verbatim>\<open>Logger\<close> calls are left out: they return nothing the adapters use.
\<close>

subsection \<open>Thrown values and asynchronous results\<close>

text \<open>
  A rejected promise carries the thrown value. The adapters raise two kinds themselves:
  the runtime's \<^verbatim>\<open>TypeError\<close> when a member of \<^verbatim>\<open>undefined\<close> or \<^verbatim>\<open>null\<close> is read, and
  \<^verbatim>\<open>new Error(message)\<close> in the factory. Everything else is raised by a collaborator and
  passed on unchanged.
\<close>

datatype error =
    TypeError
  | Error string
  | Rejected string

text \<open>
  An \<^verbatim>\<open>async\<close> method run to completion: from the state before the call to the outcome
  (\<open>Inl\<close> the rejection, \<open>Inr\<close> the value) and the state after it.
\<close>

type_synonym ('s, 'a) async = "'s \<Rightarrow> (error + 'a) \<times> 's"

definition resolve :: "'a \<Rightarrow> ('s, 'a) async" where
  "resolve x s = (Inr x, s)"

definition reject :: "error \<Rightarrow> ('s, 'a) async" where
  "reject e s = (Inl e, s)"

text \<open>\<^verbatim>\<open>const x = await m; k(x)\<close>: a rejection of \<open>m\<close> ends the method.\<close>

definition await :: "('s, 'a) async \<Rightarrow> ('a \<Rightarrow> ('s, 'b) async) \<Rightarrow> ('s, 'b) async" where
  "await m k s = (case m s of (Inl e, s') \<Rightarrow> (Inl e, s') | (Inr x, s') \<Rightarrow> k x s')"

text \<open>The same for a synchronous call that may throw.\<close>

definition and_then :: "error + 'a \<Rightarrow> ('a \<Rightarrow> error + 'b) \<Rightarrow> error + 'b" where
  "and_then r k = (case r of Inl e \<Rightarrow> Inl e | Inr x \<Rightarrow> k x)"

text \<open>
  \<^verbatim>\<open>this.client.method(...)\<close> where the field may still be \<^verbatim>\<open>undefined\<close>: reading a
  member of \<^verbatim>\<open>undefined\<close> throws \<^verbatim>\<open>TypeError\<close> before the method is entered.
\<close>

definition deref :: "('h, 'a) async \<Rightarrow> ('h option, 'a) async" where
  "deref m h = (case h of
                  None \<Rightarrow> (Inl TypeError, None)
                | Some c \<Rightarrow> (case m c of (r, c') \<Rightarrow> (r, Some c')))"

subsection \<open>Numbers\<close>

text \<open>
  A JavaScript \<^verbatim>\<open>number\<close> is an IEEE-754 double. The finite doubles are rationals, and an
  arithmetic operation returns the exact result rounded to the nearest double, ties to
  the even significand. \<open>fl\<close> is that rounding for the normal range (53-bit
  significands); \<^verbatim>\<open>NaN\<close>, the infinities, the subnormals and the sign of zero are outside
  the model. A \<^verbatim>\<open>bigint\<close> is an \<open>int\<close>.
\<close>

type_synonym number = rat

definition round_half_even :: "rat \<Rightarrow> int" where
  "round_half_even x =
     (let f = \<lfloor>x\<rfloor>; d = x - of_int f
      in if d < 1 / 2 then f else if 1 / 2 < d then f + 1 else if even f then f else f + 1)"

text \<open>The \<open>e\<close> with \<open>2 ^ e \<le> x < 2 ^ (e + 1)\<close>, for a positive \<open>x\<close>.\<close>

definition binary_exponent :: "rat \<Rightarrow> int" where
  "binary_exponent x =
     (if 1 \<le> x then int (floorlog 2 (nat \<lfloor>x\<rfloor>)) - 1
      else - int (floorlog 2 (nat \<lceil>1 / x\<rceil> - 1)))"

definition pow2 :: "int \<Rightarrow> rat" where
  "pow2 e = (if 0 \<le> e then 2 ^ nat e else 1 / 2 ^ nat (- e))"

definition fl :: "rat \<Rightarrow> number" where
  "fl x = (if x = 0 then 0
           else let u = pow2 (binary_exponent \<bar>x\<bar> - 52)
                in of_int (round_half_even (x / u)) * u)"

definition js_times :: "number \<Rightarrow> number \<Rightarrow> number" where
  "js_times a b = fl (a * b)"

definition js_minus :: "number \<Rightarrow> number \<Rightarrow> number" where
  "js_minus a b = fl (a - b)"

definition js_divide :: "number \<Rightarrow> number \<Rightarrow> number" where
  "js_divide a b = fl (a / b)"


text \<open>
  \<^verbatim>\<open>ethers.parseUnits(n, 'gwei')\<close> for a decimal integer \<open>n\<close>: \<open>n\<close> gwei in wei, a
  \<^verbatim>\<open>bigint\<close>.
\<close>

definition parseUnits_gwei :: "int \<Rightarrow> int" where
  "parseUnits_gwei n = n * 10 ^ 9"

text \<open>
  \<^verbatim>\<open>a || b\<close> on \<^verbatim>\<open>bigint | null\<close>: \<open>b\<close> when \<open>a\<close> is \<^verbatim>\<open>null\<close> or \<^verbatim>\<open>0n\<close>, the two falsy
  values of the type.
\<close>

definition or_else :: "int option \<Rightarrow> int \<Rightarrow> int" where
  "or_else a b = (case a of None \<Rightarrow> b | Some v \<Rightarrow> if v = 0 then b else v)"

text \<open>\<^verbatim>\<open>toString()\<close> of a \<^verbatim>\<open>bigint\<close>: its decimal digits.\<close>

fun digits :: "nat \<Rightarrow> string" where
  "digits n = (if n < 10 then [char_of (48 + n)]
               else digits (n div 10) @ [char_of (48 + n mod 10)])"

definition toString :: "int \<Rightarrow> string" where
  "toString i = (if i < 0 then CHR ''-'' # digits (nat (- i)) else digits (nat i))"

subsection \<open>The data model of \<^verbatim>\<open>./types\<close>\<close>

text \<open>
  Modelled from the spec: the declarations of \<^verbatim>\<open>./types\<close> are not among the sources.
  Each record has the fields the adapters read or write, with the types of their uses;
  \<open>Transaction\<close> has the spec's "target, payload, estimated resource cost". A field a
  backend may leave out is an \<open>option\<close>, \<open>None\<close> for \<^verbatim>\<open>undefined\<close>. \<^verbatim>\<open>any\<close> is the type
  variable \<open>'any\<close>. The field \<^verbatim>\<open>method\<close> of a contract call is \<open>method'\<close>.
\<close>

record NetworkConfig =
  endpoints :: "string list"
  timeout :: number
  network :: string
  version :: string
  rpc :: string
  privateKey :: string
  verifier :: string

record Transaction =
  target :: string
  payload :: string
  estimatedGas :: number

record 'any ContractCall =
  address :: string
  abi :: 'any
  method' :: string
  params :: "'any list"

record Block =
  number :: number
  hash :: string
  timestamp :: number
  transactions :: "string list"

record 'any NetworkMetrics =
  blockTime :: "number option"
  tps :: "number option"
  nodeCount :: "(number + 'any) option"
  latency :: "number option"
  gasPriceText :: "string option"

record ProofFormat =
  data :: string
  signature :: string

subsection \<open>The PoA client\<close>

text \<open>
  The prepared transaction the PoA adapter hands to its client: the caller's transaction
  (\<^verbatim>\<open>...tx\<close>) with the two fields the adapter sets.
\<close>

record PoATransactionRequest = Transaction +
  gasPrice :: string
  gasLimit :: number

text \<open>The argument of \<^verbatim>\<open>client.connect\<close>.\<close>

record ConnectOptions =
  connect_endpoints :: "string list"
  connect_timeout :: number

text \<open>What a backend reports as its network metrics; the PoA client names its nodes.\<close>

record BackendMetrics =
  averageBlockTime :: "number option"
  transactionsPerSecond :: "number option"
  networkLatency :: "number option"

record PoAMetrics = BackendMetrics +
  activeNodes :: "number option"

text \<open>
  \<^verbatim>\<open>CustomPoAClient\<close> of \<^verbatim>\<open>./poa-client\<close>, taken as a parameter: its constructor and the
  methods the adapter calls, over the client's state \<open>'c\<close>.
\<close>

record ('c, 'any) CustomPoAClient =
  client_new :: "NetworkConfig \<Rightarrow> error + 'c"
  client_initialize :: "('c, unit) async"
  client_connect :: "ConnectOptions \<Rightarrow> ('c, unit) async"
  client_disconnect :: "('c, unit) async"
  client_prepareTransaction :: "PoATransactionRequest \<Rightarrow> ('c, 'any) async"
  client_submitTransaction :: "'any \<Rightarrow> ('c, string) async"
  client_callContract :: "'any ContractCall \<Rightarrow> ('c, 'any) async"
  client_getBlock :: "number \<Rightarrow> ('c, Block) async"
  client_getNetworkMetrics :: "('c, PoAMetrics) async"
  client_generateProof :: "'any \<Rightarrow> ('c, ProofFormat) async"
  client_verifyProof :: "ProofFormat \<Rightarrow> ('c, bool) async"

subsection \<open>\<^verbatim>\<open>CustomPoAAdapter\<close>\<close>

text \<open>
  The object's fields: \<^verbatim>\<open>config\<close> is the constructor's argument, \<^verbatim>\<open>client\<close> is
  \<^verbatim>\<open>undefined\<close> until \<^verbatim>\<open>initialize\<close> assigns it.
\<close>

record 'c CustomPoAAdapter =
  poa_config :: NetworkConfig
  client :: "'c option"

definition new_CustomPoAAdapter :: "NetworkConfig \<Rightarrow> 'c CustomPoAAdapter" where
  "new_CustomPoAAdapter cfg = \<lparr>poa_config = cfg, client = None\<rparr>"

text \<open>A call on \<^verbatim>\<open>this.client\<close>, as a step of the adapter.\<close>

definition on_client :: "('c, 'a) async \<Rightarrow> ('c CustomPoAAdapter, 'a) async" where
  "on_client m a = (case deref m (client a) of (r, h) \<Rightarrow> (r, a\<lparr>client := h\<rparr>))"

text \<open>
  \<^verbatim>\<open>initialize\<close> builds the client from its own argument. The \<^verbatim>\<open>catch\<close> logs and throws
  the same error again; when \<^verbatim>\<open>client.initialize()\<close> is what failed, the field is
  already assigned.
\<close>

definition CustomPoAAdapter_initialize ::
  "('c, 'any) CustomPoAClient \<Rightarrow> NetworkConfig \<Rightarrow> ('c CustomPoAAdapter, unit) async" where
  "CustomPoAAdapter_initialize K config a =
     (case client_new K config of
        Inl e \<Rightarrow> (Inl e, a)
      | Inr c \<Rightarrow> on_client (client_initialize K) (a\<lparr>client := Some c\<rparr>))"

definition CustomPoAAdapter_connect ::
  "('c, 'any) CustomPoAClient \<Rightarrow> ('c CustomPoAAdapter, unit) async" where
  "CustomPoAAdapter_connect K a =
     on_client
       (client_connect K
          \<lparr>connect_endpoints = endpoints (poa_config a),
           connect_timeout = timeout (poa_config a)\<rparr>) a"

definition CustomPoAAdapter_disconnect ::
  "('c, 'any) CustomPoAClient \<Rightarrow> ('c CustomPoAAdapter, unit) async" where
  "CustomPoAAdapter_disconnect K = on_client (client_disconnect K)"

definition calculateOptimalGasLimit :: "Transaction \<Rightarrow> number" where
  "calculateOptimalGasLimit tx = js_times (estimatedGas tx) (fl (11 / 10))"

definition CustomPoAAdapter_submitTransaction ::
  "('c, 'any) CustomPoAClient \<Rightarrow> Transaction \<Rightarrow> ('c CustomPoAAdapter, string) async" where
  "CustomPoAAdapter_submitTransaction K tx =
     await
       (on_client
          (client_prepareTransaction K
             \<lparr>target = target tx, payload = payload tx, estimatedGas = estimatedGas tx,
              gasPrice = ''0'', gasLimit = calculateOptimalGasLimit tx\<rparr>))
       (\<lambda>preparedTx. on_client (client_submitTransaction K preparedTx))"

definition CustomPoAAdapter_callContract ::
  "('c, 'any) CustomPoAClient \<Rightarrow> 'any ContractCall \<Rightarrow> ('c CustomPoAAdapter, 'any) async" where
  "CustomPoAAdapter_callContract K call = on_client (client_callContract K call)"

definition CustomPoAAdapter_getBlock ::
  "('c, 'any) CustomPoAClient \<Rightarrow> number \<Rightarrow> ('c CustomPoAAdapter, Block) async" where
  "CustomPoAAdapter_getBlock K blockNumber = on_client (client_getBlock K blockNumber)"

definition CustomPoAAdapter_getMetrics ::
  "('c, 'any) CustomPoAClient \<Rightarrow> ('c CustomPoAAdapter, 'x NetworkMetrics) async" where
  "CustomPoAAdapter_getMetrics K =
     await (on_client (client_getNetworkMetrics K))
       (\<lambda>metrics. resolve
          \<lparr>blockTime = averageBlockTime metrics,
           tps = transactionsPerSecond metrics,
           nodeCount = map_option Inl (activeNodes metrics),
           latency = networkLatency metrics,
           gasPriceText = None\<rparr>)"

definition CustomPoAAdapter_generateProof ::
  "('c, 'any) CustomPoAClient \<Rightarrow> 'any \<Rightarrow> ('c CustomPoAAdapter, ProofFormat) async" where
  "CustomPoAAdapter_generateProof K d = on_client (client_generateProof K d)"

definition CustomPoAAdapter_verifyProof ::
  "('c, 'any) CustomPoAClient \<Rightarrow> ProofFormat \<Rightarrow> ('c CustomPoAAdapter, bool) async" where
  "CustomPoAAdapter_verifyProof K proof = on_client (client_verifyProof K proof)"

subsection \<open>The Polygon SDK\<close>

text \<open>The transaction with the two EIP-1559 fee fields, both \<^verbatim>\<open>bigint\<close>.\<close>

record FeeTransactionRequest = Transaction +
  maxFeePerGas :: int
  maxPriorityFeePerGas :: int

text \<open>The argument of \<^verbatim>\<open>new PolygonSDK\<close>.\<close>

record PolygonOptions =
  sdk_network :: string
  sdk_version :: string
  sdk_rpc :: string

record PolygonMetrics = BackendMetrics +
  activeValidators :: "number option"

text \<open>\<^verbatim>\<open>PolygonSDK\<close> of \<^verbatim>\<open>@polygon/sdk\<close>, taken as a parameter, over its state \<open>'s\<close>.\<close>

record ('s, 'any) PolygonSDK =
  sdk_new :: "PolygonOptions \<Rightarrow> error + 's"
  sdk_initialize :: "('s, unit) async"
  sdk_connect :: "('s, unit) async"
  sdk_disconnect :: "('s, unit) async"
  sdk_getBaseFee :: "('s, int) async"
  sdk_prepareTransaction :: "FeeTransactionRequest \<Rightarrow> ('s, 'any) async"
  sdk_submitTransaction :: "'any \<Rightarrow> ('s, string) async"
  sdk_callContract :: "'any ContractCall \<Rightarrow> ('s, 'any) async"
  sdk_getBlock :: "number \<Rightarrow> ('s, Block) async"
  sdk_getNetworkMetrics :: "('s, PolygonMetrics) async"
  sdk_generateProof :: "'any \<Rightarrow> ('s, ProofFormat) async"
  sdk_verifyProof :: "ProofFormat \<Rightarrow> ('s, bool) async"

subsection \<open>\<^verbatim>\<open>PolygonAdapter\<close>\<close>

record 's PolygonAdapter =
  polygon_config :: NetworkConfig
  sdk :: "'s option"

definition new_PolygonAdapter :: "NetworkConfig \<Rightarrow> 's PolygonAdapter" where
  "new_PolygonAdapter cfg = \<lparr>polygon_config = cfg, sdk = None\<rparr>"

definition on_sdk :: "('s, 'a) async \<Rightarrow> ('s PolygonAdapter, 'a) async" where
  "on_sdk m a = (case deref m (sdk a) of (r, h) \<Rightarrow> (r, a\<lparr>sdk := h\<rparr>))"

definition PolygonAdapter_initialize ::
  "('s, 'any) PolygonSDK \<Rightarrow> NetworkConfig \<Rightarrow> ('s PolygonAdapter, unit) async" where
  "PolygonAdapter_initialize S config a =
     (case sdk_new S
             \<lparr>sdk_network = network config, sdk_version = version config,
              sdk_rpc = rpc config\<rparr> of
        Inl e \<Rightarrow> (Inl e, a)
      | Inr s \<Rightarrow> on_sdk (sdk_initialize S) (a\<lparr>sdk := Some s\<rparr>))"

definition PolygonAdapter_connect ::
  "('s, 'any) PolygonSDK \<Rightarrow> ('s PolygonAdapter, unit) async" where
  "PolygonAdapter_connect S = on_sdk (sdk_connect S)"

definition PolygonAdapter_disconnect ::
  "('s, 'any) PolygonSDK \<Rightarrow> ('s PolygonAdapter, unit) async" where
  "PolygonAdapter_disconnect S = on_sdk (sdk_disconnect S)"

definition PolygonAdapter_getOptimalMaxFeePerGas ::
  "('s, 'any) PolygonSDK \<Rightarrow> ('s PolygonAdapter, int) async" where
  "PolygonAdapter_getOptimalMaxFeePerGas S =
     await (on_sdk (sdk_getBaseFee S)) (\<lambda>baseFee. resolve (baseFee * 2))"

definition PolygonAdapter_getOptimalPriorityFee :: "('s PolygonAdapter, int) async" where
  "PolygonAdapter_getOptimalPriorityFee = resolve (parseUnits_gwei 30)"

text \<open>
  The callee \<^verbatim>\<open>this.sdk.prepareTransaction\<close> is read before the argument is evaluated,
  so an \<^verbatim>\<open>undefined\<close> SDK fails here and not in \<^verbatim>\<open>getOptimalMaxFeePerGas\<close>; the error is
  the same \<^verbatim>\<open>TypeError\<close>.
\<close>

definition PolygonAdapter_submitTransaction ::
  "('s, 'any) PolygonSDK \<Rightarrow> Transaction \<Rightarrow> ('s PolygonAdapter, string) async" where
  "PolygonAdapter_submitTransaction S tx =
     await (PolygonAdapter_getOptimalMaxFeePerGas S)
       (\<lambda>maxFee. await PolygonAdapter_getOptimalPriorityFee
          (\<lambda>priorityFee.
             await
               (on_sdk
                  (sdk_prepareTransaction S
                     \<lparr>target = target tx, payload = payload tx,
                      estimatedGas = estimatedGas tx,
                      maxFeePerGas = maxFee, maxPriorityFeePerGas = priorityFee\<rparr>))
               (\<lambda>preparedTx. on_sdk (sdk_submitTransaction S preparedTx))))"

definition PolygonAdapter_callContract ::
  "('s, 'any) PolygonSDK \<Rightarrow> 'any ContractCall \<Rightarrow> ('s PolygonAdapter, 'any) async" where
  "PolygonAdapter_callContract S call = on_sdk (sdk_callContract S call)"

definition PolygonAdapter_getBlock ::
  "('s, 'any) PolygonSDK \<Rightarrow> number \<Rightarrow> ('s PolygonAdapter, Block) async" where
  "PolygonAdapter_getBlock S blockNumber = on_sdk (sdk_getBlock S blockNumber)"

definition PolygonAdapter_getMetrics ::
  "('s, 'any) PolygonSDK \<Rightarrow> ('s PolygonAdapter, 'x NetworkMetrics) async" where
  "PolygonAdapter_getMetrics S =
     await (on_sdk (sdk_getNetworkMetrics S))
       (\<lambda>metrics. resolve
          \<lparr>blockTime = averageBlockTime metrics,
           tps = transactionsPerSecond metrics,
           nodeCount = map_option Inl (activeValidators metrics),
           latency = networkLatency metrics,
           gasPriceText = None\<rparr>)"

definition PolygonAdapter_generateProof ::
  "('s, 'any) PolygonSDK \<Rightarrow> 'any \<Rightarrow> ('s PolygonAdapter, ProofFormat) async" where
  "PolygonAdapter_generateProof S d = on_sdk (sdk_generateProof S d)"

definition PolygonAdapter_verifyProof ::
  "('s, 'any) PolygonSDK \<Rightarrow> ProofFormat \<Rightarrow> ('s PolygonAdapter, bool) async" where
  "PolygonAdapter_verifyProof S proof = on_sdk (sdk_verifyProof S proof)"

subsection \<open>The ethers library and its JSON-RPC provider\<close>

text \<open>The transaction the Ethereum adapter serializes: the fee fields and the type tag.\<close>

record EthTransactionRequest = FeeTransactionRequest +
  txType :: nat

text \<open>\<^verbatim>\<open>getBlock\<close> takes a block number or the tag \<^verbatim>\<open>'latest'\<close>.\<close>

datatype BlockTag = Latest | BlockNumber number

text \<open>\<^verbatim>\<open>getFeeData()\<close>: each estimate is a \<^verbatim>\<open>bigint\<close> or \<^verbatim>\<open>null\<close>.\<close>

record FeeData =
  fee_maxFeePerGas :: "int option"
  fee_maxPriorityFeePerGas :: "int option"

text \<open>The response of \<^verbatim>\<open>sendTransaction\<close>; the adapter reads its \<^verbatim>\<open>hash\<close>.\<close>

record TransactionResponse =
  response_hash :: string

text \<open>
  What the Ethereum adapter uses of ethers, taken as a parameter, over the provider's
  state \<open>'p\<close>. A provider's block has more fields than \<open>Block\<close> (the record's
  extension); \<^verbatim>\<open>getBlock\<close> answers \<^verbatim>\<open>null\<close> (\<open>None\<close>) for a block it does not have.
  \<open>Date_now\<close> is the clock, read off the state of the world the \<^verbatim>\<open>provider\<close> field
  stands for.
  \<open>contract_call\<close> is \<^verbatim>\<open>new ethers.Contract(address, abi, provider)[method](...params)\<close>
  and \<open>wallet_signMessage\<close> is \<^verbatim>\<open>new ethers.Wallet(key, provider).signMessage(data)\<close>: both
  are handed the \<^verbatim>\<open>provider\<close> field as it is, \<^verbatim>\<open>undefined\<close> included.
  \<open>abi_encode_bytes\<close> is \<^verbatim>\<open>defaultAbiCoder.encode(['bytes'], [bytes])\<close>.
\<close>

record ('p, 'any) Ethers =
  provider_new :: "string \<Rightarrow> error + 'p"
  provider_ready :: "('p, unit) async"
  provider_sendTransaction :: "string \<Rightarrow> ('p, TransactionResponse) async"
  provider_getBlock :: "BlockTag \<Rightarrow> ('p, ('any Block_scheme) option) async"
  provider_getGasPrice :: "('p, int) async"
  provider_getNetwork :: "('p, 'any) async"
  provider_getFeeData :: "('p, FeeData) async"
  provider_getBlockNumber :: "('p, number) async"
  Date_now :: "'p option \<Rightarrow> number"
  serializeTransaction :: "EthTransactionRequest \<Rightarrow> error + string"
  contract_call :: "'any ContractCall \<Rightarrow> ('p option, 'any) async"
  JSON_stringify :: "'any \<Rightarrow> error + string option"
  toUtf8Bytes :: "string option \<Rightarrow> error + string"
  abi_encode_bytes :: "string \<Rightarrow> error + string"
  wallet_signMessage :: "string \<Rightarrow> 'p option \<Rightarrow> string \<Rightarrow> error + string"
  verifyMessage :: "string \<Rightarrow> string \<Rightarrow> error + string"

subsection \<open>\<^verbatim>\<open>EthereumAdapter\<close>\<close>

record 'p EthereumAdapter =
  eth_config :: NetworkConfig
  provider :: "'p option"

definition new_EthereumAdapter :: "NetworkConfig \<Rightarrow> 'p EthereumAdapter" where
  "new_EthereumAdapter cfg = \<lparr>eth_config = cfg, provider = None\<rparr>"

definition on_field :: "('p option, 'a) async \<Rightarrow> ('p EthereumAdapter, 'a) async" where
  "on_field m a = (case m (provider a) of (r, h) \<Rightarrow> (r, a\<lparr>provider := h\<rparr>))"

definition on_provider :: "('p, 'a) async \<Rightarrow> ('p EthereumAdapter, 'a) async" where
  "on_provider m = on_field (deref m)"

definition EthereumAdapter_initialize ::
  "('p, 'any) Ethers \<Rightarrow> NetworkConfig \<Rightarrow> ('p EthereumAdapter, unit) async" where
  "EthereumAdapter_initialize E config a =
     (case provider_new E (rpc config) of
        Inl e \<Rightarrow> (Inl e, a)
      | Inr p \<Rightarrow> on_provider (provider_ready E) (a\<lparr>provider := Some p\<rparr>))"

definition EthereumAdapter_connect ::
  "('p, 'any) Ethers \<Rightarrow> ('p EthereumAdapter, unit) async" where
  "EthereumAdapter_connect E = on_provider (provider_ready E)"

text \<open>The body of \<^verbatim>\<open>disconnect\<close> is a comment.\<close>

definition EthereumAdapter_disconnect :: "('p EthereumAdapter, unit) async" where
  "EthereumAdapter_disconnect = resolve ()"

definition EthereumAdapter_getOptimalMaxFeePerGas ::
  "('p, 'any) Ethers \<Rightarrow> ('p EthereumAdapter, int) async" where
  "EthereumAdapter_getOptimalMaxFeePerGas E =
     await (on_provider (provider_getFeeData E))
       (\<lambda>feeData. resolve (or_else (fee_maxFeePerGas feeData) (parseUnits_gwei 50)))"

definition EthereumAdapter_getOptimalPriorityFee ::
  "('p, 'any) Ethers \<Rightarrow> ('p EthereumAdapter, int) async" where
  "EthereumAdapter_getOptimalPriorityFee E =
     await (on_provider (provider_getFeeData E))
       (\<lambda>feeData. resolve (or_else (fee_maxPriorityFeePerGas feeData) (parseUnits_gwei 2)))"

definition EthereumAdapter_submitTransaction ::
  "('p, 'any) Ethers \<Rightarrow> Transaction \<Rightarrow> ('p EthereumAdapter, string) async" where
  "EthereumAdapter_submitTransaction E tx =
     await (EthereumAdapter_getOptimalMaxFeePerGas E)
       (\<lambda>maxFee. await (EthereumAdapter_getOptimalPriorityFee E)
          (\<lambda>priorityFee.
             (case serializeTransaction E
                     \<lparr>target = target tx, payload = payload tx,
                      estimatedGas = estimatedGas tx,
                      maxFeePerGas = maxFee, maxPriorityFeePerGas = priorityFee,
                      txType = 2\<rparr> of
                Inl e \<Rightarrow> reject e
              | Inr raw \<Rightarrow>
                  await (on_provider (provider_sendTransaction E raw))
                    (\<lambda>response. resolve (response_hash response)))))"

definition EthereumAdapter_callContract ::
  "('p, 'any) Ethers \<Rightarrow> 'any ContractCall \<Rightarrow> ('p EthereumAdapter, 'any) async" where
  "EthereumAdapter_callContract E call = on_field (contract_call E call)"

text \<open>\<^verbatim>\<open>block.number\<close> on a \<^verbatim>\<open>null\<close> block throws \<^verbatim>\<open>TypeError\<close>.\<close>

definition EthereumAdapter_getBlock ::
  "('p, 'any) Ethers \<Rightarrow> number \<Rightarrow> ('p EthereumAdapter, Block) async" where
  "EthereumAdapter_getBlock E blockNumber =
     await (on_provider (provider_getBlock E (BlockNumber blockNumber)))
       (\<lambda>block. case block of
           None \<Rightarrow> reject TypeError
         | Some b \<Rightarrow> resolve
             \<lparr>number = number b, hash = hash b, timestamp = timestamp b,
              transactions = transactions b\<rparr>)"

definition EthereumAdapter_calculateAverageBlockTime ::
  "('p, 'any) Ethers \<Rightarrow> ('p EthereumAdapter, number) async" where
  "EthereumAdapter_calculateAverageBlockTime E =
     await (on_provider (provider_getBlock E Latest))
       (\<lambda>latestBlock. case latestBlock of
           None \<Rightarrow> reject TypeError
         | Some lb \<Rightarrow>
             await (on_provider (provider_getBlock E (BlockNumber (js_minus (number lb) 100))))
               (\<lambda>oldBlock. case oldBlock of
                   None \<Rightarrow> reject TypeError
                 | Some ob \<Rightarrow>
                     resolve (js_divide (js_minus (timestamp lb) (timestamp ob)) 100)))"

definition EthereumAdapter_measureNetworkLatency ::
  "('p, 'any) Ethers \<Rightarrow> ('p EthereumAdapter, number) async" where
  "EthereumAdapter_measureNetworkLatency E a =
     (let start = Date_now E (provider a)
      in await (on_provider (provider_getBlockNumber E))
           (\<lambda>_ a'. resolve (js_minus (Date_now E (provider a')) start) a') a)"

text \<open>
  \<^verbatim>\<open>Promise.all\<close> starts its three requests in the order written and rejects with the
  first rejection; the model runs them one after the other in that order. The variable
  \<^verbatim>\<open>peerCount\<close> holds the answer of \<^verbatim>\<open>getNetwork()\<close>, and the object literal has no \<^verbatim>\<open>tps\<close>.
\<close>

definition EthereumAdapter_getMetrics ::
  "('p, 'any) Ethers \<Rightarrow> ('p EthereumAdapter, 'any NetworkMetrics) async" where
  "EthereumAdapter_getMetrics E =
     await (EthereumAdapter_calculateAverageBlockTime E)
       (\<lambda>blockTime'. await (on_provider (provider_getGasPrice E))
          (\<lambda>gasPrice'. await (on_provider (provider_getNetwork E))
             (\<lambda>peerCount. await (EthereumAdapter_measureNetworkLatency E)
                (\<lambda>latency'. resolve
                   \<lparr>blockTime = Some blockTime',
                    tps = None,
                    nodeCount = Some (Inr peerCount),
                    latency = Some latency',
                    gasPriceText = Some (toString gasPrice')\<rparr>))))"

definition EthereumAdapter_signData ::
  "('p, 'any) Ethers \<Rightarrow> string \<Rightarrow> 'p EthereumAdapter \<Rightarrow> error + string" where
  "EthereumAdapter_signData E d a =
     wallet_signMessage E (privateKey (eth_config a)) (provider a) d"

definition EthereumAdapter_generateProof ::
  "('p, 'any) Ethers \<Rightarrow> 'any \<Rightarrow> ('p EthereumAdapter, ProofFormat) async" where
  "EthereumAdapter_generateProof E d a =
     (and_then (JSON_stringify E d)
        (\<lambda>json. and_then (toUtf8Bytes E json)
           (\<lambda>bytes. and_then (abi_encode_bytes E bytes)
              (\<lambda>serialized. and_then (EthereumAdapter_signData E serialized a)
                 (\<lambda>sig. Inr \<lparr>data = serialized, signature = sig\<rparr>)))), a)"

text \<open>
  \<^verbatim>\<open>verifyMessage\<close> recovers the signer's address, or throws; there is no \<^verbatim>\<open>try\<close> around
  it. \<^verbatim>\<open>===\<close> compares the two strings.
\<close>

definition EthereumAdapter_verifyProof ::
  "('p, 'any) Ethers \<Rightarrow> ProofFormat \<Rightarrow> ('p EthereumAdapter, bool) async" where
  "EthereumAdapter_verifyProof E proof a =
     (and_then (verifyMessage E (data proof) (signature proof))
        (\<lambda>signer. Inr (signer = verifier (eth_config a))), a)"

subsection \<open>\<^verbatim>\<open>ChainAdapterFactory\<close>\<close>

text \<open>An \<^verbatim>\<open>IChainAdapter\<close> is an object of one of the three classes.\<close>

datatype ('c, 's, 'p) IChainAdapter =
    IsCustomPoAAdapter "'c CustomPoAAdapter"
  | IsPolygonAdapter "'s PolygonAdapter"
  | IsEthereumAdapter "'p EthereumAdapter"

definition createAdapter ::
  "string \<Rightarrow> NetworkConfig \<Rightarrow> error + ('c, 's, 'p) IChainAdapter" where
  "createAdapter chainType config =
     (if chainType = ''POA'' then Inr (IsCustomPoAAdapter (new_CustomPoAAdapter config))
      else if chainType = ''POLYGON'' then Inr (IsPolygonAdapter (new_PolygonAdapter config))
      else if chainType = ''ETHEREUM'' then Inr (IsEthereumAdapter (new_EthereumAdapter config))
      else Inl (Error (''Unsupported chain type: '' @ chainType)))"

subsection \<open>Sample collaborators\<close>

text \<open>
  Concrete collaborators, for the examples that follow the theorems: a PoA client and a
  Polygon SDK that record the calls they receive, and an ethers library over a small
  chain.
\<close>

definition sample_config :: NetworkConfig where
  "sample_config =
     \<lparr>endpoints = [''local''], timeout = 5000, network = ''legitchain'', version = ''7.0.0'',
      rpc = ''http://localhost:8545'', privateKey = ''key-1'', verifier = ''signer-of-key-1''\<rparr>"

definition other_config :: NetworkConfig where
  "other_config =
     \<lparr>endpoints = [''remote-1'', ''remote-2''], timeout = 100, network = ''other'',
      version = ''1.0.0'', rpc = ''http://example.org'', privateKey = ''key-2'',
      verifier = ''signer-of-key-2''\<rparr>"

definition tx5 :: Transaction where
  "tx5 = \<lparr>target = ''0xcontract'', payload = ''0x'', estimatedGas = 5\<rparr>"

datatype ('opts, 'req) BackendCall =
    Initialize
  | Connect 'opts
  | Disconnect
  | GetBaseFee
  | PrepareTransaction 'req
  | SubmitTransaction string
  | CallContract "string ContractCall"
  | GetBlock number
  | GetNetworkMetrics
  | GenerateProof string
  | VerifyProof ProofFormat

record ('cfg, 'call) Recording =
  constructed_with :: 'cfg
  calls :: "'call list"

definition record_call :: "'call \<Rightarrow> 'a \<Rightarrow> (('cfg, 'call) Recording, 'a) async" where
  "record_call c x s = (Inr x, s\<lparr>calls := calls s @ [c]\<rparr>)"

type_synonym RecordingClient =
  "(NetworkConfig, (ConnectOptions, PoATransactionRequest) BackendCall) Recording"

definition recording_client :: "(RecordingClient, string) CustomPoAClient" where
  "recording_client =
     \<lparr>client_new = (\<lambda>cfg. Inr \<lparr>constructed_with = cfg, calls = []\<rparr>),
      client_initialize = record_call Initialize (),
      client_connect = (\<lambda>opts. record_call (Connect opts) ()),
      client_disconnect = record_call Disconnect (),
      client_prepareTransaction = (\<lambda>req. record_call (PrepareTransaction req) ''prepared''),
      client_submitTransaction = (\<lambda>p. record_call (SubmitTransaction p) ''0xabc''),
      client_callContract = (\<lambda>c. record_call (CallContract c) ''result''),
      client_getBlock = (\<lambda>n. record_call (GetBlock n)
         \<lparr>number = n, hash = ''0xblock'', timestamp = 0, transactions = [''0xabc'']\<rparr>),
      client_getNetworkMetrics = record_call GetNetworkMetrics
         \<lparr>averageBlockTime = Some 5, transactionsPerSecond = Some 100,
          networkLatency = Some 20, activeNodes = Some 4\<rparr>,
      client_generateProof = (\<lambda>d. record_call (GenerateProof d)
         \<lparr>data = d, signature = ''signed''\<rparr>),
      client_verifyProof = (\<lambda>p. record_call (VerifyProof p) True)\<rparr>"

type_synonym RecordingSDK =
  "(PolygonOptions, (unit, FeeTransactionRequest) BackendCall) Recording"

definition recording_sdk :: "int \<Rightarrow> (RecordingSDK, string) PolygonSDK" where
  "recording_sdk b =
     \<lparr>sdk_new = (\<lambda>opts. Inr \<lparr>constructed_with = opts, calls = []\<rparr>),
      sdk_initialize = record_call Initialize (),
      sdk_connect = record_call (Connect ()) (),
      sdk_disconnect = record_call Disconnect (),
      sdk_getBaseFee = record_call GetBaseFee b,
      sdk_prepareTransaction = (\<lambda>req. record_call (PrepareTransaction req) ''prepared''),
      sdk_submitTransaction = (\<lambda>p. record_call (SubmitTransaction p) ''0xdef''),
      sdk_callContract = (\<lambda>c. record_call (CallContract c) ''result''),
      sdk_getBlock = (\<lambda>n. record_call (GetBlock n)
         \<lparr>number = n, hash = ''0xblock'', timestamp = 0, transactions = [''0xdef'']\<rparr>),
      sdk_getNetworkMetrics = record_call GetNetworkMetrics
         \<lparr>averageBlockTime = Some 2, transactionsPerSecond = Some 65,
          networkLatency = Some 30, activeValidators = Some 100\<rparr>,
      sdk_generateProof = (\<lambda>d. record_call (GenerateProof d)
         \<lparr>data = d, signature = ''signed''\<rparr>),
      sdk_verifyProof = (\<lambda>p. record_call (VerifyProof p) True)\<rparr>"

definition poa_initialized :: "RecordingClient CustomPoAAdapter" where
  "poa_initialized =
     \<lparr>poa_config = sample_config,
      client = Some \<lparr>constructed_with = other_config, calls = [Initialize]\<rparr>\<rparr>"


definition polygon_initialized :: "RecordingSDK PolygonAdapter" where
  "polygon_initialized =
     \<lparr>polygon_config = sample_config,
      sdk = Some \<lparr>constructed_with =
                    \<lparr>sdk_network = ''legitchain'', sdk_version = ''7.0.0'',
                     sdk_rpc = ''http://localhost:8545''\<rparr>,
                  calls = [Initialize]\<rparr>\<rparr>"

text \<open>
  A chain with the blocks \<open>0 .. head\<close>, twelve seconds apart, and a clock that every
  request advances by seven milliseconds.
\<close>

record EthWorld =
  head :: nat
  clock :: number

definition sample_block :: "nat \<Rightarrow> string Block_scheme" where
  "sample_block n =
     \<lparr>number = of_nat n, hash = ''0xblock'' @ digits n,
      timestamp = 1700000000 + 12 * of_nat n, transactions = [], \<dots> = ''0xparent''\<rparr>"

definition request :: "(EthWorld \<Rightarrow> 'a) \<Rightarrow> (EthWorld, 'a) async" where
  "request f w = (Inr (f w), w\<lparr>clock := clock w + 7\<rparr>)"

text \<open>
  A number outside \<open>0 .. head\<close> has no block. With \<open>relative\<close>, a negative number
  counts back from the head and stops at block 0; without it, the answer is \<^verbatim>\<open>null\<close>.
\<close>

definition lookup_block :: "bool \<Rightarrow> BlockTag \<Rightarrow> EthWorld \<Rightarrow> (string Block_scheme) option" where
  "lookup_block relative tag w =
     (case tag of
        Latest \<Rightarrow> Some (sample_block (head w))
      | BlockNumber k \<Rightarrow>
          if of_int \<lfloor>k\<rfloor> \<noteq> k then None
          else if 0 \<le> k then (if nat \<lfloor>k\<rfloor> \<le> head w then Some (sample_block (nat \<lfloor>k\<rfloor>)) else None)
          else if relative then Some (sample_block (nat (int (head w) + \<lfloor>k\<rfloor>)))
          else None)"

text \<open>
  A signature scheme that satisfies the law of signature recovery: the signature of \<open>m\<close>
  under the key \<open>k\<close> is the signer's name, \<open>#\<close> and \<open>m\<close>; recovery checks that the
  signature ends in \<open>#\<close> and the message and returns what stands before, and throws on
  any other string.
\<close>

definition sample_signer :: "string \<Rightarrow> string" where
  "sample_signer k = ''signer-of-'' @ k"

definition sample_sign :: "string \<Rightarrow> string \<Rightarrow> string" where
  "sample_sign k m = sample_signer k @ CHR ''#'' # m"

definition sample_recover :: "string \<Rightarrow> string \<Rightarrow> error + string" where
  "sample_recover m s =
     (let n = length s - (length m + 1)
      in if length m + 1 \<le> length s \<and> drop n s = CHR ''#'' # m then Inr (take n s)
         else Inl (Rejected ''invalid signature''))"

definition sample_ethers :: "bool \<Rightarrow> nat \<Rightarrow> (EthWorld, string) Ethers" where
  "sample_ethers relative h =
     \<lparr>provider_new = (\<lambda>url. Inr \<lparr>head = h, clock = 0\<rparr>),
      provider_ready = request (\<lambda>_. ()),
      provider_sendTransaction = (\<lambda>raw. request (\<lambda>_. \<lparr>response_hash = ''0xabc''\<rparr>)),
      provider_getBlock = (\<lambda>tag. request (lookup_block relative tag)),
      provider_getGasPrice = request (\<lambda>_. 20),
      provider_getNetwork = request (\<lambda>_. ''homestead''),
      provider_getFeeData = request (\<lambda>_. \<lparr>fee_maxFeePerGas = Some 40, fee_maxPriorityFeePerGas = None\<rparr>),
      provider_getBlockNumber = request (\<lambda>w. of_nat (head w)),
      Date_now = (\<lambda>p. case p of None \<Rightarrow> 0 | Some w \<Rightarrow> clock w),
      serializeTransaction = (\<lambda>req. Inr ''0xraw''),
      contract_call = (\<lambda>call p. case p of
          None \<Rightarrow> (Inl (Rejected ''missing provider''), None)
        | Some w \<Rightarrow> deref (request (\<lambda>_. ''result'')) (Some w)),
      JSON_stringify = (\<lambda>d. Inr (Some d)),
      toUtf8Bytes = (\<lambda>s. case s of None \<Rightarrow> Inl (Rejected ''invalid string value'') | Some t \<Rightarrow> Inr t),
      abi_encode_bytes = (\<lambda>b. Inr (''0x'' @ b)),
      wallet_signMessage = (\<lambda>k p m. Inr (sample_sign k m)),
      verifyMessage = sample_recover\<rparr>"

definition eth_connected :: "nat \<Rightarrow> EthWorld EthereumAdapter" where
  "eth_connected h = \<lparr>eth_config = sample_config, provider = Some \<lparr>head = h, clock = 14\<rparr>\<rparr>"

definition sample_proof :: ProofFormat where
  "sample_proof = \<lparr>data = ''0xdoc'', signature = ''signer-of-key-1#0xdoc''\<rparr>"

subsection \<open>Unfolding rules\<close>

lemmas async_defs = resolve_def reject_def await_def and_then_def deref_def

lemmas poa_defs = new_CustomPoAAdapter_def on_client_def CustomPoAAdapter_initialize_def
  CustomPoAAdapter_connect_def CustomPoAAdapter_disconnect_def
  CustomPoAAdapter_submitTransaction_def CustomPoAAdapter_callContract_def
  CustomPoAAdapter_getBlock_def CustomPoAAdapter_getMetrics_def
  CustomPoAAdapter_generateProof_def CustomPoAAdapter_verifyProof_def

lemmas polygon_defs = new_PolygonAdapter_def on_sdk_def PolygonAdapter_initialize_def
  PolygonAdapter_connect_def PolygonAdapter_disconnect_def
  PolygonAdapter_getOptimalMaxFeePerGas_def PolygonAdapter_getOptimalPriorityFee_def
  PolygonAdapter_submitTransaction_def PolygonAdapter_callContract_def
  PolygonAdapter_getBlock_def PolygonAdapter_getMetrics_def
  PolygonAdapter_generateProof_def PolygonAdapter_verifyProof_def

lemmas eth_defs = new_EthereumAdapter_def on_field_def on_provider_def
  EthereumAdapter_initialize_def EthereumAdapter_connect_def EthereumAdapter_disconnect_def
  EthereumAdapter_getOptimalMaxFeePerGas_def EthereumAdapter_getOptimalPriorityFee_def
  EthereumAdapter_submitTransaction_def EthereumAdapter_callContract_def
  EthereumAdapter_getBlock_def EthereumAdapter_calculateAverageBlockTime_def
  EthereumAdapter_measureNetworkLatency_def EthereumAdapter_getMetrics_def
  EthereumAdapter_signData_def EthereumAdapter_generateProof_def
  EthereumAdapter_verifyProof_def

lemmas sample_ethers_defs = sample_ethers_def request_def lookup_block_def sample_block_def
  sample_sign_def sample_signer_def sample_recover_def

subsection \<open>The rounding of a double operation\<close>









subsection \<open>Evaluated samples\<close>



lemma toString_20: "toString 20 = ''20''"
  by code_simp

lemma js_minus_50_100: "js_minus 50 100 = - 50"
  by code_simp

lemma js_minus_150_100: "js_minus 150 100 = 50"
  by code_simp

lemma js_minus_clock: "js_minus 49 42 = 7"
  by code_simp

lemma block_time_50: "js_divide (js_minus 1700000600 1700000000) 100 = 6"
  by code_simp

lemma block_time_150:
  "js_divide (js_minus 1700001800 1700000600) 100 = 12"
  by code_simp

lemma sample_recover_sign: "sample_recover m (sample_sign k m) = Inr (sample_signer k)"
  by (simp add: sample_recover_def sample_sign_def)

text \<open>
  The sample states are the ones \<^verbatim>\<open>initialize\<close> and \<^verbatim>\<open>connect\<close> produce.
\<close>

lemma poa_initialized_reached:
  "CustomPoAAdapter_initialize recording_client other_config (new_CustomPoAAdapter sample_config)
     = (Inr (), poa_initialized)"
  by (simp add: poa_defs async_defs recording_client_def record_call_def poa_initialized_def)

lemma polygon_initialized_reached:
  "PolygonAdapter_initialize (recording_sdk b) sample_config (new_PolygonAdapter sample_config)
     = (Inr (), polygon_initialized)"
  by (simp add: polygon_defs async_defs recording_sdk_def record_call_def polygon_initialized_def
      sample_config_def)

lemma eth_connected_reached:
  "await (EthereumAdapter_initialize (sample_ethers r h) sample_config)
     (\<lambda>_. EthereumAdapter_connect (sample_ethers r h)) (new_EthereumAdapter sample_config)
   = (Inr (), eth_connected h)"
  by (simp add: eth_defs async_defs sample_ethers_defs eth_connected_def)

subsection \<open>Calls on an adapter that was never initialised\<close>



subsection \<open>Average block time on a young chain\<close>

text \<open>
  Claim C2 at a chain whose latest block is number 50. \<^verbatim>\<open>calculateAverageBlockTime\<close>
  asks for block \<open>50 - 100 = -50\<close> without a check. A provider that counts a negative
  number back from the head answers block 0, and the adapter returns 6 seconds for blocks
  that are 12 seconds apart, also from \<^verbatim>\<open>getMetrics\<close>; a provider that answers \<^verbatim>\<open>null\<close>
  makes the adapter throw \<^verbatim>\<open>TypeError\<close> on \<^verbatim>\<open>oldBlock.timestamp\<close>.
\<close>

theorem average_block_time_young_chain:
  "EthereumAdapter_calculateAverageBlockTime (sample_ethers True 50) (eth_connected 50)
     = (Inr 6, \<lparr>eth_config = sample_config, provider = Some \<lparr>head = 50, clock = 28\<rparr>\<rparr>) \<and>
   EthereumAdapter_calculateAverageBlockTime (sample_ethers False 50) (eth_connected 50)
     = (Inl TypeError, \<lparr>eth_config = sample_config, provider = Some \<lparr>head = 50, clock = 28\<rparr>\<rparr>) \<and>
   EthereumAdapter_getMetrics (sample_ethers True 50) (eth_connected 50)
     = (Inr \<lparr>blockTime = Some 6, tps = None, nodeCount = Some (Inr ''homestead''),
             latency = Some 7, gasPriceText = Some ''20''\<rparr>,
        \<lparr>eth_config = sample_config, provider = Some \<lparr>head = 50, clock = 49\<rparr>\<rparr>)"
  by (simp add: eth_defs async_defs sample_ethers_defs eth_connected_def js_minus_50_100
      block_time_50 toString_20 js_minus_clock)

subsection \<open>The PoA gas limit\<close>




subsection \<open>Proof round trip\<close>

text \<open>
  Claim C4, as the code has it. Let the library's recovery invert its signing
  (\<^verbatim>\<open>verifyMessage(m, sign(k, m))\<close> is the signer of \<open>k\<close>) and let the signer of the
  configured private key be the configured verifier. Then \<^verbatim>\<open>verifyProof\<close> of the proof
  \<^verbatim>\<open>generateProof\<close> returns is \<^verbatim>\<open>true\<close>. With another signature in the proof,
  \<^verbatim>\<open>verifyProof\<close> is \<^verbatim>\<open>false\<close> when the library recovers a signer other than the verifier,
  and it throws the library's error when the library rejects the signature.
\<close>

theorem proof_round_trip:
  assumes law: "\<forall>k p m s. wallet_signMessage E k p m = Inr s \<longrightarrow>
                   verifyMessage E m s = Inr (signer k)"
    and ident: "signer (privateKey (eth_config a)) = verifier (eth_config a)"
    and gen: "EthereumAdapter_generateProof E d a = (Inr pf, a')"
  shows "EthereumAdapter_verifyProof E pf a' = (Inr True, a') \<and>
         (\<forall>s' x. verifyMessage E (data pf) s' = Inr x \<longrightarrow>
            EthereumAdapter_verifyProof E (pf\<lparr>signature := s'\<rparr>) a'
              = (Inr (x = verifier (eth_config a)), a')) \<and>
         (\<forall>s' e. verifyMessage E (data pf) s' = Inl e \<longrightarrow>
            EthereumAdapter_verifyProof E (pf\<lparr>signature := s'\<rparr>) a' = (Inl e, a'))"
proof -
  from gen have same: "a' = a"
    by (simp add: EthereumAdapter_generateProof_def)
  from gen obtain s where sig: "wallet_signMessage E (privateKey (eth_config a)) (provider a) (data pf) = Inr s"
    and pf: "signature pf = s"
    by (auto simp: EthereumAdapter_generateProof_def EthereumAdapter_signData_def and_then_def
        split: sum.splits)
  from law [rule_format, OF sig] ident pf
  have "verifyMessage E (data pf) (signature pf) = Inr (verifier (eth_config a))"
    by simp
  then show ?thesis
    by (simp add: EthereumAdapter_verifyProof_def and_then_def same)
qed

theorem proof_round_trip_witness:
  "EthereumAdapter_generateProof (sample_ethers False 150) ''doc''
     (new_EthereumAdapter sample_config) = (Inr sample_proof, new_EthereumAdapter sample_config) \<and>
   EthereumAdapter_verifyProof (sample_ethers False 150) sample_proof
     (new_EthereumAdapter sample_config) = (Inr True, new_EthereumAdapter sample_config) \<and>
   EthereumAdapter_verifyProof (sample_ethers False 150)
     (sample_proof\<lparr>signature := ''signer-of-key-2#0xdoc''\<rparr>)
     (new_EthereumAdapter sample_config) = (Inr False, new_EthereumAdapter sample_config)"
proof -
  let ?E = "sample_ethers False 150"
  let ?a = "new_EthereumAdapter sample_config :: EthWorld EthereumAdapter"
  have law: "\<forall>k p m s. wallet_signMessage ?E k p m = Inr s \<longrightarrow>
      verifyMessage ?E m s = Inr (sample_signer k)"
    by (auto simp: sample_ethers_def sample_recover_sign)
  have ident: "sample_signer (privateKey (eth_config ?a)) = verifier (eth_config ?a)"
    by (simp add: new_EthereumAdapter_def sample_config_def sample_signer_def)
  have gen: "EthereumAdapter_generateProof ?E ''doc'' ?a = (Inr sample_proof, ?a)"
    by (simp add: eth_defs async_defs sample_ethers_defs sample_proof_def sample_config_def)
  have other: "verifyMessage ?E (data sample_proof) ''signer-of-key-2#0xdoc''
      = Inr ''signer-of-key-2''"
    by (simp add: sample_ethers_defs sample_proof_def)
  note rt = proof_round_trip [OF law ident gen]
  from rt [THEN conjunct1] rt [THEN conjunct2, THEN conjunct1, rule_format, OF other] gen
  show ?thesis by (simp add: new_EthereumAdapter_def sample_config_def)
qed

text \<open>
  Against claim C4 as stated: with the last byte of the signature changed, the sample
  library rejects the signature and \<^verbatim>\<open>verifyProof\<close> throws instead of returning \<^verbatim>\<open>false\<close>.
\<close>

theorem mutated_signature_raises:
  "EthereumAdapter_generateProof (sample_ethers False 150) ''doc''
     (new_EthereumAdapter sample_config) = (Inr sample_proof, new_EthereumAdapter sample_config) \<and>
   length (signature sample_proof) = 21 \<and>
   (signature sample_proof) [20 := CHR ''X''] = ''signer-of-key-1#0xdoX'' \<and>
   EthereumAdapter_verifyProof (sample_ethers False 150)
     (sample_proof\<lparr>signature := (signature sample_proof) [20 := CHR ''X'']\<rparr>)
     (new_EthereumAdapter sample_config)
   = (Inl (Rejected ''invalid signature''), new_EthereumAdapter sample_config)"
  by (simp add: eth_defs async_defs sample_ethers_defs sample_proof_def sample_config_def)

subsection \<open>Outcomes of verifyProof\<close>

text \<open>
  Claim C5, as the code has it. \<^verbatim>\<open>verifyProof\<close> of the Ethereum adapter returns a boolean
  exactly when \<^verbatim>\<open>ethers.utils.verifyMessage\<close> returns a signer, and the boolean says whether
  that signer is the configured verifier; when \<^verbatim>\<open>verifyMessage\<close> throws, \<^verbatim>\<open>verifyProof\<close>
  throws the same error. The adapter is unchanged in both cases.
\<close>

theorem verifyProof_outcomes:
  "(verifyMessage E (data pf) (signature pf) = Inr x \<longrightarrow>
      EthereumAdapter_verifyProof E pf a = (Inr (x = verifier (eth_config a)), a)) \<and>
   (verifyMessage E (data pf) (signature pf) = Inl e \<longrightarrow>
      EthereumAdapter_verifyProof E pf a = (Inl e, a))"
  by (simp add: EthereumAdapter_verifyProof_def and_then_def)

theorem verifyProof_outcomes_witness:
  "verifyMessage (sample_ethers False 150) (data sample_proof) (signature sample_proof)
     = Inr ''signer-of-key-1'' \<and>
   EthereumAdapter_verifyProof (sample_ethers False 150) sample_proof (eth_connected 150)
     = (Inr True, eth_connected 150) \<and>
   verifyMessage (sample_ethers False 150) ''0xdoc'' ''0xdoc''
     = Inl (Rejected ''invalid signature'') \<and>
   EthereumAdapter_verifyProof (sample_ethers False 150)
     \<lparr>data = ''0xdoc'', signature = ''0xdoc''\<rparr> (eth_connected 150)
     = (Inl (Rejected ''invalid signature''), eth_connected 150)"
proof -
  have ok: "verifyMessage (sample_ethers False 150) (data sample_proof) (signature sample_proof)
     = Inr ''signer-of-key-1''"
    by (simp add: sample_ethers_defs sample_proof_def)
  have bad: "verifyMessage (sample_ethers False 150)
      (data \<lparr>data = ''0xdoc'', signature = ''0xdoc''\<rparr>)
      (signature \<lparr>data = ''0xdoc'', signature = ''0xdoc''\<rparr>)
     = Inl (Rejected ''invalid signature'')"
    by (simp add: sample_ethers_defs)
  have v: "verifier (eth_config (eth_connected 150)) = ''signer-of-key-1''"
    by (simp add: eth_connected_def sample_config_def)
  from verifyProof_outcomes [THEN conjunct1, rule_format, OF ok, of "eth_connected 150"]
    verifyProof_outcomes [THEN conjunct2, rule_format, OF bad, of "eth_connected 150"]
    ok bad v
  show ?thesis by simp
qed

text \<open>
  Against claim C5 as stated: a signature the sample library rejects makes \<^verbatim>\<open>verifyProof\<close>
  throw.
\<close>

theorem verifyProof_raises_on_malformed:
  "EthereumAdapter_verifyProof (sample_ethers False 150)
     \<lparr>data = ''0xdoc'', signature = ''not a signature''\<rparr> (eth_connected 150)
   = (Inl (Rejected ''invalid signature''), eth_connected 150)"
  by (simp add: eth_defs async_defs sample_ethers_defs)

subsection \<open>The Polygon fee strategy\<close>

text \<open>
  Claim C6. On an initialised Polygon adapter whose SDK reports the base fee \<open>b\<close>,
  \<^verbatim>\<open>getOptimalMaxFeePerGas\<close> is \<open>2 * b\<close>, \<^verbatim>\<open>getOptimalPriorityFee\<close> is 30 gwei
  (30000000000 wei) whatever the adapter's state and the base fee, and the request
  \<^verbatim>\<open>submitTransaction\<close> hands to \<^verbatim>\<open>sdk.prepareTransaction\<close> carries these two values.
\<close>

theorem polygon_fee_strategy:
  assumes "sdk a = Some s" and "sdk_getBaseFee S s = (Inr b, s')"
  shows "PolygonAdapter_getOptimalMaxFeePerGas S a = (Inr (2 * b), a\<lparr>sdk := Some s'\<rparr>) \<and>
         PolygonAdapter_getOptimalPriorityFee a = (Inr 30000000000, a) \<and>
         (sdk_prepareTransaction S
            \<lparr>target = target tx, payload = payload tx, estimatedGas = estimatedGas tx,
             maxFeePerGas = 2 * b, maxPriorityFeePerGas = 30000000000\<rparr> s' = (Inr p, s'') \<longrightarrow>
          sdk_submitTransaction S p s'' = (r, s''') \<longrightarrow>
          PolygonAdapter_submitTransaction S tx a = (r, a\<lparr>sdk := Some s'''\<rparr>))"
  using assms
  by (simp add: polygon_defs async_defs parseUnits_gwei_def mult.commute)

theorem polygon_fee_strategy_witness:
  "PolygonAdapter_getOptimalMaxFeePerGas (recording_sdk 17) polygon_initialized =
     (Inr 34,
      polygon_initialized
        \<lparr>sdk := Some \<lparr>constructed_with =
                        \<lparr>sdk_network = ''legitchain'', sdk_version = ''7.0.0'',
                         sdk_rpc = ''http://localhost:8545''\<rparr>,
                      calls = [Initialize, GetBaseFee]\<rparr>\<rparr>) \<and>
   PolygonAdapter_submitTransaction (recording_sdk 17) tx5 polygon_initialized =
     (Inr ''0xdef'',
      polygon_initialized
        \<lparr>sdk := Some \<lparr>constructed_with =
                        \<lparr>sdk_network = ''legitchain'', sdk_version = ''7.0.0'',
                         sdk_rpc = ''http://localhost:8545''\<rparr>,
                      calls = [Initialize, GetBaseFee,
                               PrepareTransaction
                                 \<lparr>target = ''0xcontract'', payload = ''0x'', estimatedGas = 5,
                                  maxFeePerGas = 34, maxPriorityFeePerGas = 30000000000\<rparr>,
                               SubmitTransaction ''prepared'']\<rparr>\<rparr>)"
proof -
  let ?opts = "\<lparr>sdk_network = ''legitchain'', sdk_version = ''7.0.0'',
                 sdk_rpc = ''http://localhost:8545''\<rparr>"
  let ?s0 = "\<lparr>constructed_with = ?opts, calls = [Initialize]\<rparr> :: RecordingSDK"
  let ?s1 = "\<lparr>constructed_with = ?opts, calls = [Initialize, GetBaseFee]\<rparr> :: RecordingSDK"
  have h: "sdk polygon_initialized = Some ?s0"
    by (simp add: polygon_initialized_def)
  have fee: "sdk_getBaseFee (recording_sdk 17) ?s0 = (Inr 17, ?s1)"
    by (simp add: recording_sdk_def record_call_def)
  from polygon_fee_strategy [OF h fee, of tx5 "''prepared''" _ "Inr ''0xdef''"]
  show ?thesis
    by (simp add: recording_sdk_def record_call_def tx5_def)
qed

subsection \<open>disconnect\<close>

text \<open>
  Claim C7, as the code has it. \<^verbatim>\<open>disconnect\<close> of the Ethereum adapter returns without
  an error in every state, also twice in a row. \<^verbatim>\<open>disconnect\<close> of the PoA and of the
  Polygon adapter, once \<^verbatim>\<open>initialize\<close> has assigned the client, is the client's
  \<^verbatim>\<open>disconnect\<close>: it throws exactly what the client throws, and a second call in a row
  is the client's second \<^verbatim>\<open>disconnect\<close>.
\<close>

theorem disconnect_forwards:
  "EthereumAdapter_disconnect e = (Inr (), e) \<and>
   await EthereumAdapter_disconnect (\<lambda>_. EthereumAdapter_disconnect) e = (Inr (), e) \<and>
   (client a = Some c \<longrightarrow>
      CustomPoAAdapter_disconnect K a =
        (fst (client_disconnect K c), a\<lparr>client := Some (snd (client_disconnect K c))\<rparr>)) \<and>
   (client a = Some c \<longrightarrow> client_disconnect K c = (Inr (), c1) \<longrightarrow>
      client_disconnect K c1 = (r, c2) \<longrightarrow>
      await (CustomPoAAdapter_disconnect K) (\<lambda>_. CustomPoAAdapter_disconnect K) a =
        (r, a\<lparr>client := Some c2\<rparr>)) \<and>
   (sdk b = Some s \<longrightarrow>
      PolygonAdapter_disconnect S b =
        (fst (sdk_disconnect S s), b\<lparr>sdk := Some (snd (sdk_disconnect S s))\<rparr>)) \<and>
   (sdk b = Some s \<longrightarrow> sdk_disconnect S s = (Inr (), s1) \<longrightarrow>
      sdk_disconnect S s1 = (r', s2) \<longrightarrow>
      await (PolygonAdapter_disconnect S) (\<lambda>_. PolygonAdapter_disconnect S) b =
        (r', b\<lparr>sdk := Some s2\<rparr>))"
  by (auto simp: poa_defs polygon_defs async_defs EthereumAdapter_disconnect_def
      split: prod.splits)

theorem disconnect_forwards_witness:
  "client poa_initialized = Some \<lparr>constructed_with = other_config, calls = [Initialize]\<rparr> \<and>
   await (CustomPoAAdapter_disconnect recording_client)
     (\<lambda>_. CustomPoAAdapter_disconnect recording_client) poa_initialized =
     (Inr (),
      \<lparr>poa_config = sample_config,
       client = Some \<lparr>constructed_with = other_config,
                      calls = [Initialize, Disconnect, Disconnect]\<rparr>\<rparr>) \<and>
   EthereumAdapter_disconnect (new_EthereumAdapter sample_config :: unit EthereumAdapter) =
     (Inr (), new_EthereumAdapter sample_config)"
proof -
  let ?c0 = "\<lparr>constructed_with = other_config, calls = [Initialize]\<rparr> :: RecordingClient"
  let ?c1 = "\<lparr>constructed_with = other_config, calls = [Initialize, Disconnect]\<rparr> :: RecordingClient"
  let ?c2 = "\<lparr>constructed_with = other_config,
               calls = [Initialize, Disconnect, Disconnect]\<rparr> :: RecordingClient"
  have cl: "client poa_initialized = Some ?c0"
    by (simp add: poa_initialized_def)
  have d1: "client_disconnect recording_client ?c0 = (Inr (), ?c1)"
    by (simp add: recording_client_def record_call_def)
  have d2: "client_disconnect recording_client ?c1 = (Inr (), ?c2)"
    by (simp add: recording_client_def record_call_def)
  note twice = disconnect_forwards [THEN conjunct2, THEN conjunct2, THEN conjunct2,
      THEN conjunct1, rule_format, OF cl d1 d2]
  note eth = disconnect_forwards [THEN conjunct1]
  show ?thesis
    by (simp add: twice eth cl) (simp add: poa_initialized_def)
qed

text \<open>
  Against claim C7 as stated: \<^verbatim>\<open>disconnect\<close> on a PoA or a Polygon adapter that was never
  initialised throws \<^verbatim>\<open>TypeError\<close>.
\<close>

theorem disconnect_uninitialised:
  "CustomPoAAdapter_disconnect recording_client (new_CustomPoAAdapter sample_config) =
     (Inl TypeError, new_CustomPoAAdapter sample_config) \<and>
   PolygonAdapter_disconnect (recording_sdk 17) (new_PolygonAdapter sample_config) =
     (Inl TypeError, new_PolygonAdapter sample_config)"
  by (simp add: poa_defs polygon_defs async_defs)

subsection \<open>The factory\<close>

text \<open>
  Claim C8. \<^verbatim>\<open>createAdapter\<close> returns, for \<^verbatim>\<open>'POA'\<close>, \<^verbatim>\<open>'POLYGON'\<close> and \<^verbatim>\<open>'ETHEREUM'\<close>,
  an object of the matching class that holds the given configuration and no client yet;
  for every other token it throws \<^verbatim>\<open>Error('Unsupported chain type: ' + token)\<close> and
  returns no adapter. The result depends on the two arguments only.
\<close>

theorem createAdapter_dispatch:
  "createAdapter ''POA'' cfg = Inr (IsCustomPoAAdapter \<lparr>poa_config = cfg, client = None\<rparr>) \<and>
   createAdapter ''POLYGON'' cfg = Inr (IsPolygonAdapter \<lparr>polygon_config = cfg, sdk = None\<rparr>) \<and>
   createAdapter ''ETHEREUM'' cfg = Inr (IsEthereumAdapter \<lparr>eth_config = cfg, provider = None\<rparr>) \<and>
   (chainType \<notin> {''POA'', ''POLYGON'', ''ETHEREUM''} \<longrightarrow>
      createAdapter chainType cfg = Inl (Error (''Unsupported chain type: '' @ chainType)))"
  by (simp add: createAdapter_def new_CustomPoAAdapter_def new_PolygonAdapter_def
      new_EthereumAdapter_def)

theorem createAdapter_dispatch_witness:
  "''SOLANA'' \<notin> {''POA'', ''POLYGON'', ''ETHEREUM''} \<and>
   (createAdapter ''SOLANA'' sample_config :: error + (RecordingClient, RecordingSDK, unit) IChainAdapter)
     = Inl (Error ''Unsupported chain type: SOLANA'') \<and>
   (createAdapter ''POA'' sample_config :: error + (RecordingClient, RecordingSDK, unit) IChainAdapter)
     = Inr (IsCustomPoAAdapter \<lparr>poa_config = sample_config, client = None\<rparr>)"
  by (simp add: createAdapter_dispatch)

subsection \<open>getMetrics of the Ethereum adapter\<close>

text \<open>
  Claim C9 on the Ethereum adapter. Whenever \<^verbatim>\<open>getMetrics\<close> returns, the result has no
  \<^verbatim>\<open>tps\<close>, and its \<^verbatim>\<open>nodeCount\<close> is the answer of \<^verbatim>\<open>provider.getNetwork()\<close>, not a count.
\<close>

theorem getMetrics_omits_throughput:
  assumes "EthereumAdapter_getMetrics E a = (Inr m, a')"
  shows "tps m = None \<and> (\<exists>n. nodeCount m = Some (Inr n))"
  using assms
  by (auto simp: EthereumAdapter_getMetrics_def async_defs split: prod.splits sum.splits)

theorem getMetrics_omits_throughput_witness:
  "EthereumAdapter_getMetrics (sample_ethers False 150) (eth_connected 150)
     = (Inr \<lparr>blockTime = Some 12, tps = None, nodeCount = Some (Inr ''homestead''),
             latency = Some 7, gasPriceText = Some ''20''\<rparr>,
        \<lparr>eth_config = sample_config, provider = Some \<lparr>head = 150, clock = 49\<rparr>\<rparr>) \<and>
   tps \<lparr>blockTime = Some 12, tps = None, nodeCount = Some (Inr ''homestead''),
        latency = Some 7, gasPriceText = Some ''20''\<rparr> = None"
proof -
  have run: "EthereumAdapter_getMetrics (sample_ethers False 150) (eth_connected 150)
     = (Inr \<lparr>blockTime = Some 12, tps = None, nodeCount = Some (Inr ''homestead''),
             latency = Some 7, gasPriceText = Some ''20''\<rparr>,
        \<lparr>eth_config = sample_config, provider = Some \<lparr>head = 150, clock = 49\<rparr>\<rparr>)"
    by (simp add: eth_defs async_defs sample_ethers_defs eth_connected_def js_minus_150_100
        block_time_150 toString_20 js_minus_clock)
  from getMetrics_omits_throughput [OF run] run show ?thesis by simp
qed

subsection \<open>The configuration connect uses\<close>

text \<open>
  Claim C10. Whatever configuration \<open>c2\<close> \<^verbatim>\<open>initialize\<close> was called with on a PoA adapter
  constructed with \<open>c1\<close>, the adapter still holds \<open>c1\<close>, and \<^verbatim>\<open>connect\<close> is the client's
  \<^verbatim>\<open>connect\<close> called with the endpoints and the timeout of \<open>c1\<close>.
\<close>

theorem connect_uses_constructor_config:
  assumes "CustomPoAAdapter_initialize K c2 (new_CustomPoAAdapter c1) = (r0, a)"
    and "client a = Some c"
    and "client_connect K \<lparr>connect_endpoints = endpoints c1, connect_timeout = timeout c1\<rparr> c
           = (r, c')"
  shows "poa_config a = c1 \<and> CustomPoAAdapter_connect K a = (r, a\<lparr>client := Some c'\<rparr>)"
  using assms
  by (auto simp: poa_defs async_defs split: sum.splits prod.splits option.splits)

theorem connect_uses_constructor_config_witness:
  "CustomPoAAdapter_initialize recording_client other_config (new_CustomPoAAdapter sample_config)
     = (Inr (), poa_initialized) \<and>
   endpoints other_config \<noteq> endpoints sample_config \<and>
   timeout other_config \<noteq> timeout sample_config \<and>
   CustomPoAAdapter_connect recording_client poa_initialized =
     (Inr (),
      \<lparr>poa_config = sample_config,
       client = Some \<lparr>constructed_with = other_config,
                      calls = [Initialize,
                               Connect \<lparr>connect_endpoints = [''local''],
                                        connect_timeout = 5000\<rparr>]\<rparr>\<rparr>)"
proof -
  have init: "CustomPoAAdapter_initialize recording_client other_config
      (new_CustomPoAAdapter sample_config) = (Inr (), poa_initialized)"
    by (rule poa_initialized_reached)
  have cl: "client poa_initialized = Some \<lparr>constructed_with = other_config, calls = [Initialize]\<rparr>"
    by (simp add: poa_initialized_def)
  have conn: "client_connect recording_client
      \<lparr>connect_endpoints = endpoints sample_config, connect_timeout = timeout sample_config\<rparr>
      \<lparr>constructed_with = other_config, calls = [Initialize]\<rparr>
    = (Inr (), \<lparr>constructed_with = other_config,
          calls = [Initialize, Connect \<lparr>connect_endpoints = [''local''], connect_timeout = 5000\<rparr>]\<rparr>)"
    by (simp add: recording_client_def record_call_def sample_config_def)
  from connect_uses_constructor_config [OF init cl conn] init
  show ?thesis by (simp add: poa_initialized_def sample_config_def other_config_def)
qed

end
